theory Spec2Isabelle
  imports Complex_Main "HOL-Library.Multiset"
begin

section \<open>Python values and task dictionaries\<close>

text \<open>
  The services pass tasks around as \<open>Dict[str, Any]\<close>. A value is one of the kinds the
  repository stores under a task key: \<open>None\<close>, a string, an integer, a float or a
  \<open>datetime\<close>. A \<open>datetime\<close> is its number of microseconds on the time line. The floats
  that the scoring code produces are sums of small whole numbers, which a double holds
  exactly, so a float is a real number here.
\<close>

datatype pyval = PNone | PStr string | PInt int | PFloat real | PDate int

datatype error = TypeError | AttributeError | ValueError

type_synonym task_dict = "string \<rightharpoonup> pyval"

text \<open>\<open>d.get(k)\<close>: the value under the key, \<open>None\<close> when the key is absent.\<close>

definition dget :: "task_dict \<Rightarrow> string \<Rightarrow> pyval" where
  "dget task k = (case task k of None \<Rightarrow> PNone | Some v \<Rightarrow> v)"

text \<open>\<open>d.get(k, dflt)\<close>: the default only when the key is absent.\<close>

definition dget_default :: "task_dict \<Rightarrow> string \<Rightarrow> pyval \<Rightarrow> pyval" where
  "dget_default task k dflt = (case task k of None \<Rightarrow> dflt | Some v \<Rightarrow> v)"

text \<open>Python truthiness of a value.\<close>

fun truthy :: "pyval \<Rightarrow> bool" where
  "truthy PNone = False"
| "truthy (PStr s) = (s \<noteq> [])"
| "truthy (PInt i) = (i \<noteq> 0)"
| "truthy (PFloat r) = (r \<noteq> 0)"
| "truthy (PDate d) = True"

text \<open>Lexicographic comparison of strings by code point.\<close>

fun str_lt :: "string \<Rightarrow> string \<Rightarrow> bool" where
  "str_lt [] [] = False"
| "str_lt [] (y # ys) = True"
| "str_lt (x # xs) [] = False"
| "str_lt (x # xs) (y # ys) =
     ((of_char x :: nat) < of_char y \<or> (x = y \<and> str_lt xs ys))"

text \<open>\<open>a < b\<close>: defined between two datetimes, two numbers or two strings; a
  \<open>TypeError\<close> otherwise.\<close>

fun py_lt :: "pyval \<Rightarrow> pyval \<Rightarrow> error + bool" where
  "py_lt (PDate a) (PDate b) = Inr (a < b)"
| "py_lt (PInt a) (PInt b) = Inr (a < b)"
| "py_lt (PInt a) (PFloat b) = Inr (real_of_int a < b)"
| "py_lt (PFloat a) (PInt b) = Inr (a < real_of_int b)"
| "py_lt (PFloat a) (PFloat b) = Inr (a < b)"
| "py_lt (PStr a) (PStr b) = Inr (str_lt a b)"
| "py_lt _ _ = Inl TypeError"

text \<open>\<open>a >= b\<close>, with the same domain.\<close>

fun py_ge :: "pyval \<Rightarrow> pyval \<Rightarrow> error + bool" where
  "py_ge a b = (case py_lt a b of Inl e \<Rightarrow> Inl e | Inr r \<Rightarrow> Inr (\<not> r))"

text \<open>\<open>(a - b).days\<close>: the difference of two datetimes is a \<open>timedelta\<close>, whose
  \<open>days\<close> field is the floor of the difference in days. Two numbers subtract, but the
  result has no \<open>days\<close> attribute; any other pair cannot be subtracted.\<close>

definition usec_per_day :: int where
  "usec_per_day = 86400000000"

fun py_sub_days :: "pyval \<Rightarrow> pyval \<Rightarrow> error + int" where
  "py_sub_days (PDate a) (PDate b) = Inr ((a - b) div usec_per_day)"
| "py_sub_days (PInt a) (PInt b) = Inl AttributeError"
| "py_sub_days (PInt a) (PFloat b) = Inl AttributeError"
| "py_sub_days (PFloat a) (PInt b) = Inl AttributeError"
| "py_sub_days (PFloat a) (PFloat b) = Inl AttributeError"
| "py_sub_days _ _ = Inl TypeError"

section \<open>AIService.detect_risk_level\<close>

definition overdue_term :: "task_dict \<Rightarrow> error + int" where
  "overdue_term task =
     (if truthy (dget task ''deadline'')
      then (case py_lt (dget task ''deadline'') (dget task ''current_date'') of
              Inl e \<Rightarrow> Inl e
            | Inr b \<Rightarrow> Inr (if b then 3 else 0))
      else Inr 0)"

definition unassigned_term :: "task_dict \<Rightarrow> int" where
  "unassigned_term task = (if \<not> truthy (dget task ''assignee'') then 1 else 0)"

definition blocked_term :: "task_dict \<Rightarrow> int" where
  "blocked_term task = (if dget task ''status'' = PStr ''blocked'' then 3 else 0)"

definition unclear_term :: "task_dict \<Rightarrow> int" where
  "unclear_term task =
     (if dget task ''status'' = PStr ''unclear'' \<or> \<not> truthy (dget task ''description'')
      then 2 else 0)"

definition story_points_term :: "task_dict \<Rightarrow> error + int" where
  "story_points_term task =
     (case py_ge (dget_default task ''story_points'' (PInt 0)) (PInt 8) of
        Inl e \<Rightarrow> Inl e
      | Inr b \<Rightarrow> Inr (if b then 1 else 0))"

text \<open>The additive score, in the order the source adds its terms.\<close>

definition risk_score :: "task_dict \<Rightarrow> error + int" where
  "risk_score task =
     (case overdue_term task of
        Inl e \<Rightarrow> Inl e
      | Inr a \<Rightarrow>
         (case story_points_term task of
            Inl e \<Rightarrow> Inl e
          | Inr p \<Rightarrow>
             Inr (0 + a + unassigned_term task + blocked_term task + unclear_term task + p)))"

definition detect_risk_level :: "task_dict \<Rightarrow> error + string" where
  "detect_risk_level task =
     (case risk_score task of
        Inl e \<Rightarrow> Inl e
      | Inr s \<Rightarrow> Inr (if s \<ge> 4 then ''high'' else if s \<ge> 2 then ''medium'' else ''low''))"

section \<open>AIService.calculate_priority_score\<close>

text \<open>\<open>(task['deadline'] - task.get('current_date', task['deadline'])).days\<close>; it is
  evaluated only where \<open>task.get('deadline')\<close> is truthy, so the key is present.\<close>

definition days_until_deadline :: "task_dict \<Rightarrow> error + int" where
  "days_until_deadline task =
     py_sub_days (dget task ''deadline'')
       (dget_default task ''current_date'' (dget task ''deadline''))"

definition urgency :: "task_dict \<Rightarrow> error + real" where
  "urgency task =
     (if truthy (dget task ''deadline'')
      then (case days_until_deadline task of
              Inl e \<Rightarrow> Inl e
            | Inr d \<Rightarrow>
               Inr (if d < 0 then 100
                    else if d \<le> 1 then 50
                    else if d \<le> 3 then 30
                    else if d \<le> 7 then 20
                    else 0))
      else Inr 0)"

definition status_weight :: "task_dict \<Rightarrow> real" where
  "status_weight task =
     (if dget task ''status'' = PStr ''blocked'' then 40
      else if dget task ''status'' = PStr ''in_progress'' then 25
      else 0)"

text \<open>\<open>risk_weights.get(task.get('ai_risk_level', 'low'), 5)\<close>.\<close>

definition risk_weights :: "pyval \<Rightarrow> real option" where
  "risk_weights k =
     (if k = PStr ''high'' then Some 30
      else if k = PStr ''medium'' then Some 15
      else if k = PStr ''low'' then Some 5
      else None)"

definition risk_weight :: "task_dict \<Rightarrow> real" where
  "risk_weight task =
     (case risk_weights (dget_default task ''ai_risk_level'' (PStr ''low'')) of
        None \<Rightarrow> 5
      | Some w \<Rightarrow> w)"

definition type_weight :: "task_dict \<Rightarrow> real" where
  "type_weight task = (if dget task ''task_type'' = PStr ''bug'' then 20 else 0)"

definition calculate_priority_score :: "task_dict \<Rightarrow> error + real" where
  "calculate_priority_score task =
     (case urgency task of
        Inl e \<Rightarrow> Inl e
      | Inr u \<Rightarrow> Inr (0 + u + status_weight task + risk_weight task + type_weight task))"

section \<open>AIService.rank_tasks_by_priority\<close>

text \<open>The loop \<open>task['priority_score'] = self.calculate_priority_score(task)\<close>: it stops
  at the first task whose score raises.\<close>

fun score_tasks :: "task_dict list \<Rightarrow> error + task_dict list" where
  "score_tasks [] = Inr []"
| "score_tasks (task # tasks) =
     (case calculate_priority_score task of
        Inl e \<Rightarrow> Inl e
      | Inr s \<Rightarrow>
         (case score_tasks tasks of
            Inl e \<Rightarrow> Inl e
          | Inr rest \<Rightarrow> Inr (task(''priority_score'' \<mapsto> PFloat s) # rest)))"

text \<open>The sort key \<open>x.get('priority_score', 0)\<close>. After the loop every task holds a
  float under that key (lemma \<open>score_tasks_all2\<close> below), so the keys are compared as
  numbers; the last case is never met there.\<close>

definition priority_key :: "task_dict \<Rightarrow> real" where
  "priority_key x =
     (case dget_default x ''priority_score'' (PInt 0) of
        PFloat r \<Rightarrow> r
      | PInt i \<Rightarrow> real_of_int i
      | _ \<Rightarrow> 0)"

text \<open>\<open>sorted(xs, key=key, reverse=True)\<close>. Python's \<open>sorted\<close> is a stable sort, and
  with \<open>reverse=True\<close> it orders by descending key and still keeps the input order of
  elements with equal keys. The result of a stable sort is determined by its input, so
  the stable insertion sort on the negated key computes it.\<close>

definition sorted_reverse :: "('a \<Rightarrow> real) \<Rightarrow> 'a list \<Rightarrow> 'a list" where
  "sorted_reverse key xs = sort_key (\<lambda>x. - key x) xs"

definition rank_tasks_by_priority :: "task_dict list \<Rightarrow> error + task_dict list" where
  "rank_tasks_by_priority tasks =
     (case score_tasks tasks of
        Inl e \<Rightarrow> Inl e
      | Inr scored \<Rightarrow> Inr (sorted_reverse priority_key scored))"

section \<open>The persisted model\<close>

datatype TaskStatus = TODO | IN_PROGRESS | DONE | BLOCKED | UNCLEAR

datatype TaskType = FEATURE | BUG | RESEARCH | TYPE_BLOCKED | TYPE_UNCLEAR

datatype RiskLevel = LOW | MEDIUM | HIGH

fun status_value :: "TaskStatus \<Rightarrow> string" where
  "status_value TODO = ''todo''"
| "status_value IN_PROGRESS = ''in_progress''"
| "status_value DONE = ''done''"
| "status_value BLOCKED = ''blocked''"
| "status_value UNCLEAR = ''unclear''"

fun type_value :: "TaskType \<Rightarrow> string" where
  "type_value FEATURE = ''feature''"
| "type_value BUG = ''bug''"
| "type_value RESEARCH = ''research''"
| "type_value TYPE_BLOCKED = ''blocked''"
| "type_value TYPE_UNCLEAR = ''unclear''"

fun risk_value :: "RiskLevel \<Rightarrow> string" where
  "risk_value LOW = ''low''"
| "risk_value MEDIUM = ''medium''"
| "risk_value HIGH = ''high''"

text \<open>A row of \<open>tasks\<close>. The columns that are nullable are options; \<open>status\<close> is not
  nullable. A \<open>DateTime\<close> column holds microseconds, as \<open>PDate\<close> does.\<close>

record Task =
  task_id :: int
  project_id :: int
  title :: string
  description :: "string option"
  status :: TaskStatus
  task_type :: "TaskType option"
  deadline :: "int option"
  assignee :: "string option"
  priority_score :: "real option"
  ai_risk_level :: "RiskLevel option"
  story_points :: "int option"

record Project =
  proj_id :: int
  name :: string

text \<open>A JSON document. The \<open>Text\<close> columns of a report that hold the output of
  \<open>json.dumps\<close> are modelled by the document that the text denotes.\<close>

datatype json =
  JNull | JBool bool | JNum real | JString string | JArray "json list"
  | JObject "(string \<times> json) list"

text \<open>A row of \<open>daily_reports\<close>; \<open>date\<close> is a calendar day number. \<open>summary_text\<close> is
  whatever the narrative result holds under that key, a string in every regular case.\<close>

record DailyReport =
  report_id :: int
  report_project_id :: int
  date :: int
  summary_text :: json
  priority_list_json :: json
  risks_json :: json
  blocked_tasks_json :: json

record db =
  db_projects :: "Project list"
  db_tasks :: "Task list"
  db_daily_reports :: "DailyReport list"

text \<open>\<open>db.query(Task).filter(Task.project_id == project_id).all()\<close>.\<close>

definition project_tasks :: "db \<Rightarrow> int \<Rightarrow> Task list" where
  "project_tasks d pid = filter (\<lambda>t. project_id t = pid) (db_tasks d)"

section \<open>ReportService.get_timeline_status\<close>

text \<open>Decimal rendering of a count, as an f-string prints it.\<close>

definition digit_char :: "nat \<Rightarrow> char" where
  "digit_char d =
     (if d = 0 then CHR ''0'' else if d = 1 then CHR ''1'' else if d = 2 then CHR ''2''
      else if d = 3 then CHR ''3'' else if d = 4 then CHR ''4'' else if d = 5 then CHR ''5''
      else if d = 6 then CHR ''6'' else if d = 7 then CHR ''7'' else if d = 8 then CHR ''8''
      else CHR ''9'')"

fun str_nat :: "nat \<Rightarrow> string" where
  "str_nat n =
     (if n < 10 then [digit_char n] else str_nat (n div 10) @ [digit_char (n mod 10)])"

declare str_nat.simps [simp del]

record metrics =
  total_tasks :: nat
  completed :: nat
  blocked :: nat
  overdue :: nat
  high_risk :: nat
  completion_rate :: real

text \<open>The returned dictionary; the \<open>metrics\<close> key is absent in the empty case.\<close>

record timeline_status =
  result_status :: string
  result_reason :: string
  result_metrics :: "metrics option"

text \<open>\<open>t.deadline and t.deadline < datetime.now() and t.status.value != 'done'\<close>. The
  source reads the clock once per task; \<open>now\<close> is one reading for the whole call.\<close>

definition is_overdue :: "int \<Rightarrow> Task \<Rightarrow> bool" where
  "is_overdue now t =
     (case deadline t of
        None \<Rightarrow> False
      | Some d \<Rightarrow> d < now \<and> status_value (status t) \<noteq> ''done'')"

definition completed_count :: "Task list \<Rightarrow> nat" where
  "completed_count ts = length (filter (\<lambda>t. status_value (status t) = ''done'') ts)"

definition blocked_count :: "Task list \<Rightarrow> nat" where
  "blocked_count ts = length (filter (\<lambda>t. status_value (status t) = ''blocked'') ts)"

definition overdue_count :: "int \<Rightarrow> Task list \<Rightarrow> nat" where
  "overdue_count now ts = length (filter (is_overdue now) ts)"

text \<open>\<open>t.ai_risk_level.value == 'high'\<close>: a task whose risk level is \<open>NULL\<close> has no
  \<open>value\<close> attribute.\<close>

definition high_risk_count :: "Task list \<Rightarrow> error + nat" where
  "high_risk_count ts =
     (if \<exists>t \<in> set ts. ai_risk_level t = None then Inl AttributeError
      else Inr (length (filter (\<lambda>t. map_option risk_value (ai_risk_level t) = Some ''high'') ts)))"

text \<open>
  The fractions \<open>0.3\<close>, \<open>0.2\<close> and \<open>0.7\<close> are doubles in the source. A count compared
  with \<open>total * 0.3\<close> or \<open>total * 0.2\<close>, and \<open>completed / total\<close> compared with \<open>0.7\<close>,
  give on doubles the same answer as on exact numbers for every total below \<open>2^50\<close>:
  where the exact product is a whole number the rounded product is that number, and
  elsewhere it is at least a tenth away from every whole number. Likewise
  \<open>int(completion_rate * 100)\<close> is the floor of the exact percentage whenever the rate is
  above \<open>0.7\<close>. The comparisons and the percentage are therefore written on exact
  numbers. The metric \<open>round(completion_rate * 100, 1)\<close> depends on the rounding of
  doubles and is a parameter, \<open>round_pct completed total\<close>.
\<close>

definition get_timeline_status ::
  "(nat \<Rightarrow> nat \<Rightarrow> real) \<Rightarrow> int \<Rightarrow> db \<Rightarrow> int \<Rightarrow> error + timeline_status" where
  "get_timeline_status round_pct now d pid =
     (let ts = project_tasks d pid in
      if ts = [] then
        Inr \<lparr>result_status = ''Needs More Info'',
             result_reason = ''No tasks found in project'',
             result_metrics = None\<rparr>
      else
        let n_total = length ts;
            n_completed = completed_count ts;
            n_blocked = blocked_count ts;
            n_overdue = overdue_count now ts
        in case high_risk_count ts of
             Inl e \<Rightarrow> Inl e
           | Inr n_high_risk \<Rightarrow>
              let rate = (if n_total > 0 then real n_completed / real n_total else 0);
                  (st, reason) =
                    (if real n_blocked > real n_total * 0.3 \<or>
                        real n_overdue > real n_total * 0.2
                     then (''Off Track'',
                           str_nat n_blocked @ '' blocked tasks, '' @
                           str_nat n_overdue @ '' overdue tasks'')
                     else if real n_high_risk > real n_total * 0.3 \<or> n_overdue > 0
                     then (''At Risk'',
                           str_nat n_high_risk @ '' high-risk tasks, '' @
                           str_nat n_overdue @ '' overdue tasks'')
                     else if rate > 0.7
                     then (''On Track'',
                           str_nat (nat \<lfloor>rate * 100\<rfloor>) @ ''% tasks completed'')
                     else (''On Track'', ''Project progressing normally''))
              in Inr \<lparr>result_status = st, result_reason = reason,
                      result_metrics = Some
                        \<lparr>total_tasks = n_total, completed = n_completed,
                         blocked = n_blocked, overdue = n_overdue,
                         high_risk = n_high_risk,
                         completion_rate = round_pct n_completed n_total\<rparr>\<rparr>)"

section \<open>AIService.generate_daily_summary\<close>

text \<open>
  The outcome of the \<open>try\<close> block: the narrative provider is called, the text between
  the first \<open>{\<close> and the last \<open>}\<close> of its answer is parsed by \<open>json.loads\<close>, and the
  parsed object is returned. Text that starts with \<open>{\<close> parses to an object or not at
  all, so the outcome is a JSON object, as a dictionary, or an exception somewhere in
  the block. The provider is external; its outcome in one call is a parameter.
\<close>

datatype provider_result = Provider_failure | Provider_object "string \<rightharpoonup> json"

definition generate_daily_summary :: "provider_result \<Rightarrow> (string \<rightharpoonup> json)" where
  "generate_daily_summary reply =
     (case reply of
        Provider_object result \<Rightarrow> result
      | Provider_failure \<Rightarrow>
         [''key_progress'' \<mapsto> JArray [],
          ''risks'' \<mapsto> JArray [],
          ''urgent_tasks'' \<mapsto> JArray [],
          ''blocked_items'' \<mapsto> JArray [],
          ''summary_text'' \<mapsto> JString ''Unable to generate summary at this time.''])"

section \<open>ReportService.generate_daily_report\<close>

definition opt_str :: "string option \<Rightarrow> pyval" where
  "opt_str v = (case v of None \<Rightarrow> PNone | Some s \<Rightarrow> PStr s)"

text \<open>The dictionary built for each task of the project; \<open>now\<close> is the reading of
  \<open>datetime.now()\<close>.\<close>

definition report_task_dict :: "int \<Rightarrow> Task \<Rightarrow> task_dict" where
  "report_task_dict now t =
     [''id'' \<mapsto> PInt (task_id t),
      ''title'' \<mapsto> PStr (title t),
      ''description'' \<mapsto> opt_str (description t),
      ''status'' \<mapsto> PStr (status_value (status t)),
      ''deadline'' \<mapsto> (case deadline t of None \<Rightarrow> PNone | Some dl \<Rightarrow> PDate dl),
      ''assignee'' \<mapsto> opt_str (assignee t),
      ''priority_score'' \<mapsto> (case priority_score t of None \<Rightarrow> PNone | Some r \<Rightarrow> PFloat r),
      ''ai_risk_level'' \<mapsto> opt_str (map_option risk_value (ai_risk_level t)),
      ''task_type'' \<mapsto> opt_str (map_option type_value (task_type t)),
      ''current_date'' \<mapsto> PDate now]"

text \<open>The keys of that dictionary in insertion order, the order in which \<open>json.dumps\<close>
  visits them.\<close>

definition report_dict_keys :: "string list" where
  "report_dict_keys =
     [''id'', ''title'', ''description'', ''status'', ''deadline'', ''assignee'',
      ''priority_score'', ''ai_risk_level'', ''task_type'', ''current_date'']"

text \<open>\<open>json.dumps\<close> with the default encoder: \<open>None\<close>, strings and numbers are
  encoded; a \<open>datetime\<close> is not JSON serializable and raises \<open>TypeError\<close>.\<close>

fun dumps_value :: "pyval \<Rightarrow> error + json" where
  "dumps_value PNone = Inr JNull"
| "dumps_value (PStr s) = Inr (JString s)"
| "dumps_value (PInt i) = Inr (JNum (real_of_int i))"
| "dumps_value (PFloat r) = Inr (JNum r)"
| "dumps_value (PDate dt) = Inl TypeError"

fun dumps_items :: "task_dict \<Rightarrow> string list \<Rightarrow> error + (string \<times> json) list" where
  "dumps_items task [] = Inr []"
| "dumps_items task (k # ks) =
     (case task k of
        None \<Rightarrow> dumps_items task ks
      | Some v \<Rightarrow>
         (case dumps_value v of
            Inl e \<Rightarrow> Inl e
          | Inr j \<Rightarrow>
             (case dumps_items task ks of
                Inl e \<Rightarrow> Inl e
              | Inr rest \<Rightarrow> Inr ((k, j) # rest))))"

fun dumps_task_list :: "task_dict list \<Rightarrow> error + json list" where
  "dumps_task_list [] = Inr []"
| "dumps_task_list (task # rest) =
     (case dumps_items task report_dict_keys of
        Inl e \<Rightarrow> Inl e
      | Inr kv \<Rightarrow>
         (case dumps_task_list rest of
            Inl e \<Rightarrow> Inl e
          | Inr js \<Rightarrow> Inr (JObject kv # js)))"

text \<open>\<open>ai_summary.get(k, dflt)\<close>.\<close>

definition summary_get :: "(string \<rightharpoonup> json) \<Rightarrow> string \<Rightarrow> json \<Rightarrow> json" where
  "summary_get m k dflt = (case m k of None \<Rightarrow> dflt | Some v \<Rightarrow> v)"

text \<open>The blocked extract and its \<open>json.dumps\<close>. It reads \<open>title\<close> and \<open>status\<close> of the
  task dictionaries, which hold the task's title and the value of its status.\<close>

definition blocked_extract :: "Task list \<Rightarrow> json" where
  "blocked_extract ts =
     JArray (map (\<lambda>t. JObject [(''task'', JString (title t)),
                                 (''reason'', JString ''Marked as blocked'')])
               (filter (\<lambda>t. status_value (status t) = ''blocked'') ts))"

text \<open>The four content fields of the report that is built before the lookup.\<close>

record report_content =
  new_summary_text :: json
  new_priority_list_json :: json
  new_risks_json :: json
  new_blocked_tasks_json :: json

text \<open>Ranking, narrative, blocked extract and serialization, in the order of the
  source. The keyword arguments of \<open>DailyReport(...)\<close> are evaluated in order; only
  \<open>json.dumps(ranked_tasks[:10])\<close> can raise.\<close>

definition build_content ::
  "provider_result \<Rightarrow> int \<Rightarrow> Task list \<Rightarrow> error + report_content" where
  "build_content reply now ts =
     (case rank_tasks_by_priority (map (report_task_dict now) ts) of
        Inl e \<Rightarrow> Inl e
      | Inr ranked_tasks \<Rightarrow>
         (case dumps_task_list (take 10 ranked_tasks) of
            Inl e \<Rightarrow> Inl e
          | Inr priority_list \<Rightarrow>
             Inr \<lparr>new_summary_text =
                    summary_get (generate_daily_summary reply) ''summary_text'' (JString []),
                  new_priority_list_json = JArray priority_list,
                  new_risks_json =
                    summary_get (generate_daily_summary reply) ''risks'' (JArray []),
                  new_blocked_tasks_json = blocked_extract ts\<rparr>))"

text \<open>The primary key that the database gives a new row: one more than the greatest
  key in the table.\<close>

definition next_report_id :: "DailyReport list \<Rightarrow> int" where
  "next_report_id rs = foldr (\<lambda>r m. max (report_id r) m) rs 0 + 1"

definition is_report_for :: "int \<Rightarrow> int \<Rightarrow> DailyReport \<Rightarrow> bool" where
  "is_report_for pid today r = (report_project_id r = pid \<and> date r = today)"

definition overwrite :: "DailyReport \<Rightarrow> report_content \<Rightarrow> DailyReport" where
  "overwrite existing_report c =
     existing_report
       \<lparr>summary_text := new_summary_text c,
        priority_list_json := new_priority_list_json c,
        risks_json := new_risks_json c,
        blocked_tasks_json := new_blocked_tasks_json c\<rparr>"

text \<open>The lookup of today's report and the two branches after it. The commit of the
  changed row is an update of the row with its primary key.\<close>

definition upsert_report :: "db \<Rightarrow> int \<Rightarrow> int \<Rightarrow> report_content \<Rightarrow> db \<times> DailyReport" where
  "upsert_report d pid today c =
     (case find (is_report_for pid today) (db_daily_reports d) of
        Some existing_report \<Rightarrow>
          (d\<lparr>db_daily_reports :=
               map (\<lambda>r. if report_id r = report_id existing_report
                         then overwrite existing_report c else r) (db_daily_reports d)\<rparr>,
           overwrite existing_report c)
      | None \<Rightarrow>
          (d\<lparr>db_daily_reports := db_daily_reports d @
               [\<lparr>report_id = next_report_id (db_daily_reports d),
                 report_project_id = pid, date = today,
                 summary_text = new_summary_text c,
                 priority_list_json = new_priority_list_json c,
                 risks_json = new_risks_json c,
                 blocked_tasks_json = new_blocked_tasks_json c\<rparr>]\<rparr>,
           \<lparr>report_id = next_report_id (db_daily_reports d),
            report_project_id = pid, date = today,
            summary_text = new_summary_text c,
            priority_list_json = new_priority_list_json c,
            risks_json = new_risks_json c,
            blocked_tasks_json = new_blocked_tasks_json c\<rparr>))"

text \<open>\<open>today\<close> is the reading of \<open>date.today()\<close>. A missing project raises
  \<open>ValueError\<close>.\<close>

definition generate_daily_report ::
  "provider_result \<Rightarrow> int \<Rightarrow> int \<Rightarrow> db \<Rightarrow> int \<Rightarrow> error + db \<times> DailyReport" where
  "generate_daily_report reply today now d pid =
     (case find (\<lambda>p. proj_id p = pid) (db_projects d) of
        None \<Rightarrow> Inl ValueError
      | Some project \<Rightarrow>
         (case build_content reply now (project_tasks d pid) of
            Inl e \<Rightarrow> Inl e
          | Inr c \<Rightarrow> Inr (upsert_report d pid today c)))"

section \<open>TaskService: parsing of deadlines\<close>


















section \<open>Task views used in the statements\<close>

fun is_date :: "pyval \<Rightarrow> bool" where
  "is_date (PDate d) = True"
| "is_date _ = False"

text \<open>A view whose dates have the types the \<open>Task\<close> model gives them: the deadline is
  \<open>None\<close> or a datetime, and the reference date, where the key is present, is a datetime.\<close>

definition dated_view :: "task_dict \<Rightarrow> bool" where
  "dated_view task =
     (\<not> truthy (dget task ''deadline'') \<or>
      (is_date (dget task ''deadline'') \<and>
       (case task ''current_date'' of None \<Rightarrow> True | Some c \<Rightarrow> is_date c)))"

text \<open>A blocked task none of whose other risk terms fires: an assignee, a description,
  a deadline that is absent or not before the reference date, fewer than 8 story points.\<close>

definition blocked_only :: "task_dict \<Rightarrow> bool" where
  "blocked_only task =
     (dget task ''status'' = PStr ''blocked'' \<and>
      truthy (dget task ''assignee'') \<and>
      truthy (dget task ''description'') \<and>
      (\<not> truthy (dget task ''deadline'') \<or>
       py_lt (dget task ''deadline'') (dget task ''current_date'') = Inr False) \<and>
      py_ge (dget_default task ''story_points'' (PInt 0)) (PInt 8) = Inr False)"

definition blocked_task :: task_dict where
  "blocked_task =
     [''status'' \<mapsto> PStr ''blocked'', ''assignee'' \<mapsto> PStr ''ana'',
      ''description'' \<mapsto> PStr ''wait for vendor'', ''story_points'' \<mapsto> PInt 3]"

text \<open>A bug in progress, due at instant 0, seen one microsecond after its deadline
  (\<open>late_bug\<close>, one day overdue in whole days) and ten days before it (\<open>early_bug\<close>).\<close>

definition late_bug :: task_dict where
  "late_bug =
     [''status'' \<mapsto> PStr ''in_progress'', ''task_type'' \<mapsto> PStr ''bug'',
      ''ai_risk_level'' \<mapsto> PStr ''medium'', ''deadline'' \<mapsto> PDate 0,
      ''current_date'' \<mapsto> PDate 1]"

definition early_bug :: task_dict where
  "early_bug = late_bug(''current_date'' \<mapsto> PDate (- 10 * usec_per_day))"

definition undated_reference_task :: task_dict where
  "undated_reference_task =
     [''status'' \<mapsto> PStr ''todo'', ''ai_risk_level'' \<mapsto> PStr ''severe'',
      ''deadline'' \<mapsto> PDate 1700000000000000]"

text \<open>\<open>x\<close> is \<open>task\<close> with its score written back under \<open>priority_score\<close>.\<close>

definition scored_as :: "task_dict \<Rightarrow> task_dict \<Rightarrow> bool" where
  "scored_as task x =
     (case calculate_priority_score task of
        Inl e \<Rightarrow> False
      | Inr s \<Rightarrow> x = task(''priority_score'' \<mapsto> PFloat s))"

text \<open>Three tasks without deadline: \<open>task_b\<close> is blocked, the other two tie.\<close>

definition task_a :: task_dict where
  "task_a = [''title'' \<mapsto> PStr ''a'', ''status'' \<mapsto> PStr ''todo'']"

definition task_b :: task_dict where
  "task_b = [''title'' \<mapsto> PStr ''b'', ''status'' \<mapsto> PStr ''blocked'']"

definition task_c :: task_dict where
  "task_c = [''title'' \<mapsto> PStr ''c'', ''status'' \<mapsto> PStr ''todo'']"

text \<open>The classification of section 4.4 of the specification, in its words: the four
  rules in order, the first that matches decides.\<close>

definition first_matching_rule :: "nat \<Rightarrow> nat \<Rightarrow> nat \<Rightarrow> nat \<Rightarrow> nat \<Rightarrow> string \<times> string" where
  "first_matching_rule n_total n_completed n_blocked n_overdue n_high_risk =
     (if real n_blocked > 0.3 * real n_total \<or> real n_overdue > 0.2 * real n_total
      then (''Off Track'',
            str_nat n_blocked @ '' blocked tasks, '' @ str_nat n_overdue @ '' overdue tasks'')
      else if real n_high_risk > 0.3 * real n_total \<or> n_overdue > 0
      then (''At Risk'',
            str_nat n_high_risk @ '' high-risk tasks, '' @ str_nat n_overdue @ '' overdue tasks'')
      else if real n_completed / real n_total > 0.7
      then (''On Track'',
            str_nat (nat \<lfloor>real n_completed / real n_total * 100\<rfloor>) @ ''% tasks completed'')
      else (''On Track'', ''Project progressing normally''))"

definition mk_task :: "int \<Rightarrow> int \<Rightarrow> TaskStatus \<Rightarrow> RiskLevel \<Rightarrow> Task" where
  "mk_task pid i st r =
     \<lparr>task_id = i, project_id = pid, title = ''task'', description = None, status = st,
      task_type = Some FEATURE, deadline = None, assignee = None, priority_score = Some 0,
      ai_risk_level = Some r, story_points = None\<rparr>"

text \<open>Project 1 with ten tasks, the first \<open>k\<close> of them blocked, for \<open>k\<close> up to 4; project 2
  has one task and project 3 none.\<close>

definition ten_tasks_db :: "nat \<Rightarrow> db" where
  "ten_tasks_db k =
     \<lparr>db_projects = [\<lparr>proj_id = 1, name = ''alpha''\<rparr>, \<lparr>proj_id = 2, name = ''beta''\<rparr>,
                  \<lparr>proj_id = 3, name = ''gamma''\<rparr>],
      db_tasks = map (\<lambda>i. mk_task 1 i BLOCKED LOW) (take k [1, 2, 3, 4]) @
              map (\<lambda>i. mk_task 1 i TODO LOW) (drop k [1, 2, 3, 4, 5, 6, 7, 8, 9, 10]) @
              [mk_task 2 11 DONE LOW],
      db_daily_reports = []\<rparr>"

text \<open>A task without deadline and with status \<open>todo\<close> that carries the risk label \<open>l\<close>.\<close>

definition risk_labelled :: "string \<Rightarrow> task_dict" where
  "risk_labelled l = [''status'' \<mapsto> PStr ''todo'', ''ai_risk_level'' \<mapsto> PStr l]"

text \<open>The metrics of section 4.4 of the specification, in its words: \<open>completed\<close>
  (status is done), \<open>blocked\<close> (status is blocked), \<open>overdue\<close> (deadline present,
  deadline before now, status not done) and \<open>high_risk\<close> (risk level is high).\<close>

definition spec_completed :: "Task list \<Rightarrow> nat" where
  "spec_completed ts = length (filter (\<lambda>t. status t = DONE) ts)"

definition spec_blocked :: "Task list \<Rightarrow> nat" where
  "spec_blocked ts = length (filter (\<lambda>t. status t = BLOCKED) ts)"

definition spec_overdue :: "int \<Rightarrow> Task list \<Rightarrow> nat" where
  "spec_overdue now ts =
     length (filter (\<lambda>t. deadline t \<noteq> None \<and> the (deadline t) < now \<and> status t \<noteq> DONE) ts)"

definition spec_high_risk :: "Task list \<Rightarrow> nat" where
  "spec_high_risk ts = length (filter (\<lambda>t. ai_risk_level t = Some HIGH) ts)"

text \<open>Project 1 seen at instant 10: one task in progress is past its deadline and at
  high risk, one task past its deadline is done, one deadline lies ahead.\<close>

definition mk_due :: "int \<Rightarrow> TaskStatus \<Rightarrow> RiskLevel \<Rightarrow> int \<Rightarrow> Task" where
  "mk_due i st r dl = (mk_task 1 i st r)\<lparr>deadline := Some dl\<rparr>"

definition late_tasks :: "Task list" where
  "late_tasks =
     [mk_due 1 IN_PROGRESS HIGH 5, mk_due 2 DONE LOW 5, mk_due 3 TODO LOW 20,
      mk_task 1 4 TODO MEDIUM, mk_task 1 5 DONE LOW, mk_task 1 6 TODO LOW,
      mk_task 1 7 TODO LOW, mk_task 1 8 TODO LOW, mk_task 1 9 TODO LOW,
      mk_task 1 10 TODO LOW]"

definition late_project_db :: db where
  "late_project_db =
     \<lparr>db_projects = [\<lparr>proj_id = 1, name = ''alpha''\<rparr>],
      db_tasks = late_tasks @ [mk_task 2 11 BLOCKED HIGH],
      db_daily_reports = []\<rparr>"

text \<open>The project and calendar day of a report.\<close>

definition report_key :: "DailyReport \<Rightarrow> int \<times> int" where
  "report_key x = (report_project_id x, date x)"

text \<open>The row that the create branch adds.\<close>

definition fresh_report :: "db \<Rightarrow> int \<Rightarrow> int \<Rightarrow> report_content \<Rightarrow> DailyReport" where
  "fresh_report d pid today c =
     \<lparr>report_id = next_report_id (db_daily_reports d),
      report_project_id = pid, date = today,
      summary_text = new_summary_text c,
      priority_list_json = new_priority_list_json c,
      risks_json = new_risks_json c,
      blocked_tasks_json = new_blocked_tasks_json c\<rparr>"
















section \<open>Properties of the risk classifier\<close>

lemma blocked_task_only: "blocked_only blocked_task"
  by (simp add: blocked_only_def blocked_task_def dget_def dget_default_def)

text \<open>
  Claim C2, as the code has it. A blocked task whose other risk terms contribute
  nothing has risk score exactly 3, from the blocked term alone. The score meets the
  threshold 2 and misses the threshold 4, so the classifier returns \<open>medium\<close>.
\<close>

theorem blocked_alone_is_medium:
  assumes "blocked_only task"
  shows "risk_score task = Inr 3 \<and> detect_risk_level task = Inr ''medium''"
  using assms
  by (auto simp: blocked_only_def detect_risk_level_def risk_score_def overdue_term_def
      unassigned_term_def blocked_term_def unclear_term_def story_points_term_def)

theorem blocked_alone_is_medium_witness:
  "blocked_only blocked_task \<and> risk_score blocked_task = Inr 3 \<and>
   detect_risk_level blocked_task = Inr ''medium''"
  using blocked_alone_is_medium [OF blocked_task_only] blocked_task_only by simp

text \<open>
  Claim C2 as stated says that such a task is classified \<open>high\<close>. The task
  \<open>blocked_task\<close> is blocked, assigned, described, without deadline and has 3 story
  points, and it is not classified \<open>high\<close>.
\<close>

theorem blocked_alone_not_high:
  "blocked_only blocked_task \<and> detect_risk_level blocked_task \<noteq> Inr ''high''"
  by (simp add: blocked_only_def blocked_task_def dget_def dget_default_def
      detect_risk_level_def risk_score_def overdue_term_def
      unassigned_term_def blocked_term_def unclear_term_def story_points_term_def)

section \<open>Properties of the priority score\<close>

lemma is_date_iff: "is_date v = (\<exists>d. v = PDate d)"
  by (cases v) simp_all

lemma risk_weight_ge: "5 \<le> risk_weight task"
  by (simp add: risk_weight_def risk_weights_def)

lemma status_weight_ge: "0 \<le> status_weight task"
  by (simp add: status_weight_def)

lemma type_weight_ge: "0 \<le> type_weight task"
  by (simp add: type_weight_def)

lemma urgency_ge: "urgency task = Inr u \<Longrightarrow> 0 \<le> u"
  by (auto simp: urgency_def split: if_splits sum.splits)

lemma days_until_total:
  assumes "dated_view task" and "truthy (dget task ''deadline'')"
  shows "\<exists>d. days_until_deadline task = Inr d"
proof -
  from assms obtain a where a: "dget task ''deadline'' = PDate a"
    by (auto simp: dated_view_def is_date_iff)
  show ?thesis
  proof (cases "task ''current_date''")
    case None
    then show ?thesis by (simp add: days_until_deadline_def dget_default_def a)
  next
    case (Some c)
    with assms obtain b where "c = PDate b"
      by (auto simp: dated_view_def is_date_iff)
    with Some show ?thesis by (simp add: days_until_deadline_def dget_default_def a)
  qed
qed

lemma urgency_total: "dated_view task \<Longrightarrow> \<exists>u. urgency task = Inr u"
  using days_until_total [of task] by (auto simp: urgency_def)

lemma score_total: "dated_view task \<Longrightarrow> \<exists>s. calculate_priority_score task = Inr s"
  using urgency_total [of task] by (auto simp: calculate_priority_score_def)

lemma score_ge_5: "calculate_priority_score task = Inr s \<Longrightarrow> 5 \<le> s"
proof -
  assume s: "calculate_priority_score task = Inr s"
  then obtain u where u: "urgency task = Inr u"
    and eq: "s = 0 + u + status_weight task + risk_weight task + type_weight task"
    by (auto simp: calculate_priority_score_def split: sum.splits)
  have "0 \<le> u" using urgency_ge [OF u] .
  moreover have "5 \<le> risk_weight task" "0 \<le> status_weight task" "0 \<le> type_weight task"
    by (rule risk_weight_ge status_weight_ge type_weight_ge)+
  ultimately show ?thesis using eq by simp
qed

text \<open>
  Claim C7. Two task views with a deadline that agree on every key other than
  \<open>deadline\<close> and \<open>current_date\<close>, the first with \<open>d1\<close> whole days until its deadline
  and the second with \<open>d2\<close>, where \<open>d1 \<le> d2\<close>: both are scored, and the first scores
  at least as high as the second.
\<close>

theorem score_antitone_in_days:
  assumes "truthy (dget t1 ''deadline'')" and "truthy (dget t2 ''deadline'')"
    and "days_until_deadline t1 = Inr d1" and "days_until_deadline t2 = Inr d2"
    and "\<forall>k. k \<noteq> ''deadline'' \<and> k \<noteq> ''current_date'' \<longrightarrow> t1 k = t2 k"
    and "d1 \<le> d2"
  shows "\<exists>s1 s2. calculate_priority_score t1 = Inr s1 \<and>
           calculate_priority_score t2 = Inr s2 \<and> s2 \<le> s1"
proof -
  have eq: "t1 ''status'' = t2 ''status''" "t1 ''ai_risk_level'' = t2 ''ai_risk_level''"
    "t1 ''task_type'' = t2 ''task_type''"
    using assms(5) by simp_all
  have w: "status_weight t1 = status_weight t2" "risk_weight t1 = risk_weight t2"
    "type_weight t1 = type_weight t2"
    by (simp_all add: status_weight_def risk_weight_def type_weight_def dget_def
        dget_default_def eq)
  obtain u1 u2 where u: "urgency t1 = Inr u1" "urgency t2 = Inr u2" "u2 \<le> u1"
    using assms(1-4,6) by (auto simp: urgency_def)
  then show ?thesis by (simp add: calculate_priority_score_def w)
qed

lemma late_bug_days: "days_until_deadline late_bug = Inr (- 1)"
  by (simp add: days_until_deadline_def late_bug_def dget_def dget_default_def
      usec_per_day_def)

lemma early_bug_days: "days_until_deadline early_bug = Inr 10"
  by (simp add: days_until_deadline_def early_bug_def late_bug_def dget_def
      dget_default_def usec_per_day_def)

lemma bug_deadlines:
  "truthy (dget late_bug ''deadline'')" "truthy (dget early_bug ''deadline'')"
  by (simp_all add: early_bug_def late_bug_def dget_def)

lemma bugs_agree:
  "\<forall>k. k \<noteq> ''deadline'' \<and> k \<noteq> ''current_date'' \<longrightarrow> late_bug k = early_bug k"
  by (simp add: early_bug_def)

theorem score_antitone_in_days_witness:
  "days_until_deadline late_bug = Inr (- 1) \<and> days_until_deadline early_bug = Inr 10 \<and>
   calculate_priority_score late_bug = Inr 160 \<and>
   calculate_priority_score early_bug = Inr 60 \<and>
   (\<exists>s1 s2. calculate_priority_score late_bug = Inr s1 \<and>
      calculate_priority_score early_bug = Inr s2 \<and> s2 \<le> s1)"
proof -
  have le: "(- 1 :: int) \<le> 10" by simp
  have "\<exists>s1 s2. calculate_priority_score late_bug = Inr s1 \<and>
      calculate_priority_score early_bug = Inr s2 \<and> s2 \<le> s1"
    by (rule score_antitone_in_days [OF bug_deadlines late_bug_days early_bug_days
          bugs_agree le])
  moreover have "calculate_priority_score late_bug = Inr 160"
    by (simp add: calculate_priority_score_def urgency_def late_bug_days status_weight_def
        risk_weight_def risk_weights_def type_weight_def bug_deadlines)
      (simp add: late_bug_def dget_def dget_default_def)
  moreover have "calculate_priority_score early_bug = Inr 60"
    by (simp add: calculate_priority_score_def urgency_def early_bug_days status_weight_def
        risk_weight_def risk_weights_def type_weight_def bug_deadlines)
      (simp add: early_bug_def late_bug_def dget_def dget_default_def)
  ultimately show ?thesis using late_bug_days early_bug_days by simp
qed

text \<open>
  Claim C8. Every task view with well-typed dates is scored. The score is the sum of
  the urgency, the status weight, the risk contribution and the type weight, where the
  risk contribution is 30 for the label \<open>high\<close>, 15 for \<open>medium\<close> and 5 for \<open>low\<close>, for
  any other label and for a missing label. No other term is negative, so the score is
  at least 5.
\<close>

theorem score_at_least_5:
  assumes "dated_view task"
  shows "\<exists>s u. calculate_priority_score task = Inr s \<and> urgency task = Inr u \<and>
      s = u + status_weight task +
            (if task ''ai_risk_level'' = Some (PStr ''high'') then 30
             else if task ''ai_risk_level'' = Some (PStr ''medium'') then 15
             else 5) + type_weight task \<and>
      0 \<le> u \<and> 0 \<le> status_weight task \<and> 0 \<le> type_weight task \<and> 5 \<le> s"
proof -
  from urgency_total [OF assms] obtain u where u: "urgency task = Inr u" by blast
  have rw: "risk_weight task =
      (if task ''ai_risk_level'' = Some (PStr ''high'') then 30
       else if task ''ai_risk_level'' = Some (PStr ''medium'') then 15
       else 5)"
    by (auto simp: risk_weight_def risk_weights_def dget_default_def split: option.splits)
  have s: "calculate_priority_score task =
      Inr (u + status_weight task + risk_weight task + type_weight task)"
    by (simp add: calculate_priority_score_def u)
  have "0 \<le> u" using urgency_ge [OF u] .
  moreover have "0 \<le> status_weight task" "0 \<le> type_weight task" "5 \<le> risk_weight task"
    by (rule status_weight_ge type_weight_ge risk_weight_ge)+
  ultimately show ?thesis using u s rw by auto
qed

lemma risk_labelled_view: "dated_view (risk_labelled l)"
  by (simp add: dated_view_def risk_labelled_def dget_def)

lemma risk_labelled_terms:
  "urgency (risk_labelled l) = Inr 0" "status_weight (risk_labelled l) = 0"
  "type_weight (risk_labelled l) = 0"
  by (simp_all add: urgency_def status_weight_def type_weight_def risk_labelled_def dget_def)

lemma risk_labelled_label: "risk_labelled l ''ai_risk_level'' = Some (PStr l)"
  by (simp add: risk_labelled_def)

theorem score_at_least_5_witness:
  "dated_view (risk_labelled ''high'') \<and> dated_view (risk_labelled ''medium'') \<and>
   dated_view (risk_labelled ''low'') \<and> dated_view (risk_labelled ''severe'') \<and>
   calculate_priority_score (risk_labelled ''high'') = Inr 30 \<and>
   calculate_priority_score (risk_labelled ''medium'') = Inr 15 \<and>
   calculate_priority_score (risk_labelled ''low'') = Inr 5 \<and>
   calculate_priority_score (risk_labelled ''severe'') = Inr 5"
proof -
  have "calculate_priority_score (risk_labelled ''high'') = Inr 30"
    using score_at_least_5 [OF risk_labelled_view, of "''high''"]
    by (auto simp: risk_labelled_terms risk_labelled_label)
  moreover have "calculate_priority_score (risk_labelled ''medium'') = Inr 15"
    using score_at_least_5 [OF risk_labelled_view, of "''medium''"]
    by (auto simp: risk_labelled_terms risk_labelled_label)
  moreover have "calculate_priority_score (risk_labelled ''low'') = Inr 5"
    using score_at_least_5 [OF risk_labelled_view, of "''low''"]
    by (auto simp: risk_labelled_terms risk_labelled_label)
  moreover have "calculate_priority_score (risk_labelled ''severe'') = Inr 5"
    using score_at_least_5 [OF risk_labelled_view, of "''severe''"]
    by (auto simp: risk_labelled_terms risk_labelled_label)
  ultimately show ?thesis by (simp add: risk_labelled_view)
qed

text \<open>
  Claim C10. A task view with a deadline and no \<open>current_date\<close> key is scored with
  the deadline as its own reference date: the days until the deadline are 0 and the
  urgency term is 50.
\<close>

theorem deadline_without_reference:
  assumes "task ''deadline'' = Some (PDate d)" and "task ''current_date'' = None"
  shows "days_until_deadline task = Inr 0 \<and> urgency task = Inr 50 \<and>
    calculate_priority_score task =
      Inr (50 + status_weight task + risk_weight task + type_weight task)"
  using assms
  by (simp add: calculate_priority_score_def urgency_def days_until_deadline_def dget_def
      dget_default_def)

theorem deadline_without_reference_witness:
  "undated_reference_task ''deadline'' = Some (PDate 1700000000000000) \<and>
   undated_reference_task ''current_date'' = None \<and>
   urgency undated_reference_task = Inr 50 \<and>
   calculate_priority_score undated_reference_task = Inr 55"
proof -
  have d: "undated_reference_task ''deadline'' = Some (PDate 1700000000000000)"
    and c: "undated_reference_task ''current_date'' = None"
    by (simp_all add: undated_reference_task_def)
  have w: "status_weight undated_reference_task = 0"
    "risk_weight undated_reference_task = 5" "type_weight undated_reference_task = 0"
    by (simp_all add: status_weight_def risk_weight_def risk_weights_def type_weight_def
        undated_reference_task_def dget_def dget_default_def)
  show ?thesis using deadline_without_reference [OF d c] d c w by simp
qed

section \<open>Properties of the ranking\<close>

lemma dget_other: "k \<noteq> k' \<Longrightarrow> dget (task(k \<mapsto> v)) k' = dget task k'"
  by (simp add: dget_def)

lemma dget_default_other:
  "k \<noteq> k' \<Longrightarrow> dget_default (task(k \<mapsto> v)) k' d = dget_default task k' d"
  by (simp add: dget_default_def)

lemma urgency_ignores_cache: "urgency (task(''priority_score'' \<mapsto> v)) = urgency task"
  by (simp add: urgency_def days_until_deadline_def dget_other dget_default_other)

lemma weights_ignore_cache:
  "status_weight (task(''priority_score'' \<mapsto> v)) = status_weight task"
  "risk_weight (task(''priority_score'' \<mapsto> v)) = risk_weight task"
  "type_weight (task(''priority_score'' \<mapsto> v)) = type_weight task"
  by (simp_all add: status_weight_def risk_weight_def type_weight_def dget_other
      dget_default_other)

lemma score_ignores_cache:
  "calculate_priority_score (task(''priority_score'' \<mapsto> v)) = calculate_priority_score task"
  by (simp add: calculate_priority_score_def urgency_ignores_cache weights_ignore_cache
      split: sum.splits)

lemma score_tasks_total:
  "\<forall>t\<in>set tasks. dated_view t \<Longrightarrow> \<exists>scored. score_tasks tasks = Inr scored"
proof (induction tasks)
  case Nil
  then show ?case by simp
next
  case (Cons t ts)
  then obtain rest where "score_tasks ts = Inr rest" by auto
  moreover obtain s where "calculate_priority_score t = Inr s"
    using Cons.prems score_total [of t] by auto
  ultimately show ?case by simp
qed

lemma score_tasks_all2:
  "score_tasks tasks = Inr scored \<Longrightarrow> list_all2 scored_as tasks scored"
proof (induction tasks arbitrary: scored)
  case Nil
  then show ?case by simp
next
  case (Cons t ts)
  then show ?case
    by (auto simp: scored_as_def split: sum.splits)
qed

lemma scored_as_key:
  "scored_as task x \<Longrightarrow> calculate_priority_score x = Inr (priority_key x)"
  by (auto simp: scored_as_def priority_key_def dget_default_def score_ignores_cache
      split: sum.splits)

lemma sorted_reverse_desc:
  "sorted_wrt (\<lambda>a b. key b \<le> key a) (sorted_reverse key xs)"
proof -
  have "sorted (map (\<lambda>x. - key x) (sort_key (\<lambda>x. - key x) xs))"
    by (rule sorted_sort_key)
  then show ?thesis
    by (simp add: sorted_reverse_def sorted_map)
qed

lemma sorted_reverse_stable:
  "filter (\<lambda>x. key x = k) (sorted_reverse key xs) = filter (\<lambda>x. key x = k) xs"
proof -
  have "filter (\<lambda>x. - key x = - k) (sort_key (\<lambda>x. - key x) xs)
      = filter (\<lambda>x. - key x = - k) xs"
    by (rule sort_key_stable)
  then show ?thesis by (simp add: sorted_reverse_def)
qed

lemma mset_sorted_reverse: "mset (sorted_reverse key xs) = mset xs"
  by (simp add: sorted_reverse_def)

text \<open>
  Claim C6. For every list of task views with well-typed dates, the ranking returns
  the scored tasks (each task with its own score written back) rearranged so that the
  scores never increase along the result: a task with a greater score stands before
  every task with a smaller one. Tasks with the same score keep their input order.
\<close>

theorem rank_descending_stable:
  assumes "\<forall>t\<in>set tasks. dated_view t"
  shows "\<exists>scored ranked.
      score_tasks tasks = Inr scored \<and> list_all2 scored_as tasks scored \<and>
      rank_tasks_by_priority tasks = Inr ranked \<and>
      mset ranked = mset scored \<and>
      (\<forall>x\<in>set ranked. calculate_priority_score x = Inr (priority_key x)) \<and>
      sorted_wrt (\<lambda>a b. priority_key b \<le> priority_key a) ranked \<and>
      (\<forall>k. filter (\<lambda>x. priority_key x = k) ranked = filter (\<lambda>x. priority_key x = k) scored)"
proof -
  from score_tasks_total [OF assms] obtain scored where sc: "score_tasks tasks = Inr scored"
    by blast
  let ?ranked = "sorted_reverse priority_key scored"
  have all2: "list_all2 scored_as tasks scored" by (rule score_tasks_all2 [OF sc])
  have keys: "\<forall>x\<in>set scored. calculate_priority_score x = Inr (priority_key x)"
  proof
    fix x assume "x \<in> set scored"
    then obtain t where "scored_as t x"
      using all2 by (auto simp: list_all2_conv_all_nth in_set_conv_nth)
    then show "calculate_priority_score x = Inr (priority_key x)" by (rule scored_as_key)
  qed
  have "set ?ranked = set scored" by (simp add: sorted_reverse_def)
  with keys have "\<forall>x\<in>set ?ranked. calculate_priority_score x = Inr (priority_key x)"
    by simp
  moreover have "rank_tasks_by_priority tasks = Inr ?ranked"
    by (simp add: rank_tasks_by_priority_def sc)
  ultimately show ?thesis
    using sc all2 sorted_reverse_desc [of priority_key scored]
      sorted_reverse_stable [of priority_key _ scored] mset_sorted_reverse [of priority_key scored]
    by blast
qed

lemma abc_scores:
  "calculate_priority_score task_a = Inr 5" "calculate_priority_score task_b = Inr 45"
  "calculate_priority_score task_c = Inr 5"
  by (simp_all add: calculate_priority_score_def urgency_def status_weight_def
      risk_weight_def risk_weights_def type_weight_def dget_def dget_default_def
      task_a_def task_b_def task_c_def)

lemma abc_views: "\<forall>t\<in>set [task_a, task_b, task_c]. dated_view t"
  by (simp add: dated_view_def dget_def task_a_def task_b_def task_c_def)

lemma abc_ranked:
  "rank_tasks_by_priority [task_a, task_b, task_c] =
     Inr [task_b(''priority_score'' \<mapsto> PFloat 45), task_a(''priority_score'' \<mapsto> PFloat 5),
          task_c(''priority_score'' \<mapsto> PFloat 5)]"
  by (simp add: rank_tasks_by_priority_def abc_scores sorted_reverse_def priority_key_def
      dget_default_def)

theorem rank_descending_stable_witness:
  "dated_view task_a \<and> dated_view task_b \<and> dated_view task_c \<and>
   (\<exists>ranked. rank_tasks_by_priority [task_a, task_b, task_c] = Inr ranked \<and>
      map (\<lambda>x. x ''title'') ranked = [Some (PStr ''b''), Some (PStr ''a''), Some (PStr ''c'')] \<and>
      sorted_wrt (\<lambda>a b. priority_key b \<le> priority_key a) ranked)"
proof -
  from rank_descending_stable [OF abc_views] obtain ranked
    where r: "rank_tasks_by_priority [task_a, task_b, task_c] = Inr ranked"
      and s: "sorted_wrt (\<lambda>a b. priority_key b \<le> priority_key a) ranked"
    by blast
  from r have "ranked =
      [task_b(''priority_score'' \<mapsto> PFloat 45), task_a(''priority_score'' \<mapsto> PFloat 5),
       task_c(''priority_score'' \<mapsto> PFloat 5)]"
    by (simp add: abc_ranked)
  then have "map (\<lambda>x. x ''title'') ranked =
      [Some (PStr ''b''), Some (PStr ''a''), Some (PStr ''c'')]"
    by (simp add: task_a_def task_b_def task_c_def)
  with r s abc_views show ?thesis by simp
qed

section \<open>Properties of the timeline status\<close>

lemma status_value_eq:
  "(status_value s = ''done'') = (s = DONE)"
  "(status_value s = ''blocked'') = (s = BLOCKED)"
  by (cases s; simp)+

lemma risk_value_high: "(risk_value r = ''high'') = (r = HIGH)"
  by (cases r) simp_all

lemma completed_count_spec: "completed_count ts = spec_completed ts"
  by (simp add: completed_count_def spec_completed_def status_value_eq)

lemma blocked_count_spec: "blocked_count ts = spec_blocked ts"
  by (simp add: blocked_count_def spec_blocked_def status_value_eq)

lemma is_overdue_spec:
  "is_overdue now t = (deadline t \<noteq> None \<and> the (deadline t) < now \<and> status t \<noteq> DONE)"
  by (simp add: is_overdue_def status_value_eq split: option.splits)

lemma overdue_count_spec: "overdue_count now ts = spec_overdue now ts"
proof -
  have "filter (is_overdue now) ts =
      filter (\<lambda>t. deadline t \<noteq> None \<and> the (deadline t) < now \<and> status t \<noteq> DONE) ts"
    by (rule filter_cong) (auto simp: is_overdue_spec)
  then show ?thesis by (simp add: overdue_count_def spec_overdue_def)
qed

lemma high_risk_count_spec:
  assumes "\<forall>t\<in>set ts. ai_risk_level t \<noteq> None"
  shows "high_risk_count ts = Inr (spec_high_risk ts)"
proof -
  have "filter (\<lambda>t. map_option risk_value (ai_risk_level t) = Some ''high'') ts =
      filter (\<lambda>t. ai_risk_level t = Some HIGH) ts"
    by (rule filter_cong) (auto simp: risk_value_high)
  then show ?thesis using assms by (simp add: high_risk_count_def spec_high_risk_def)
qed

text \<open>
  Claim C3. For a project with at least one task, all with a risk level, the status
  and reason are those of the first matching rule of the ordered list, applied to the
  number of tasks, of completed tasks (status done), of blocked tasks (status blocked),
  of overdue tasks (deadline before now, status not done) and of high-risk tasks:
  more than 30% of the tasks blocked or more than 20% overdue gives \<open>Off Track\<close>; else
  more than 30% high-risk or any overdue task gives \<open>At Risk\<close>; else a completion rate
  above 0.7 gives \<open>On Track\<close> with the percentage; else \<open>On Track\<close> with the fixed
  reason. The comparisons are strict: with exactly 30% blocked and at most 20% overdue
  the status is not \<open>Off Track\<close>.
\<close>

theorem timeline_first_match:
  assumes "ts = filter (\<lambda>t. project_id t = pid) (db_tasks d)"
    and "ts \<noteq> []"
    and "\<forall>t\<in>set ts. ai_risk_level t \<noteq> None"
  shows "\<exists>r. get_timeline_status round_pct now d pid = Inr r \<and>
      (result_status r, result_reason r) =
        first_matching_rule (length ts) (spec_completed ts) (spec_blocked ts)
          (spec_overdue now ts) (spec_high_risk ts) \<and>
      (10 * spec_blocked ts = 3 * length ts \<and> 5 * spec_overdue now ts \<le> length ts
       \<longrightarrow> result_status r \<noteq> ''Off Track'')"
proof -
  have ts: "project_tasks d pid = ts"
    by (simp add: project_tasks_def assms(1))
  have h: "high_risk_count ts = Inr (spec_high_risk ts)"
    by (rule high_risk_count_spec [OF assms(3)])
  have n: "0 < length ts" using assms(2) by simp
  show ?thesis
    using assms(2) n
    by (auto simp: get_timeline_status_def ts Let_def first_matching_rule_def mult.commute h
        completed_count_spec blocked_count_spec overdue_count_spec)
qed

lemma ten_tasks_project:
  "project_tasks (ten_tasks_db 3) 1 =
     map (\<lambda>i. mk_task 1 i BLOCKED LOW) [1, 2, 3] @
     map (\<lambda>i. mk_task 1 i TODO LOW) [4, 5, 6, 7, 8, 9, 10]"
  "project_tasks (ten_tasks_db 4) 1 =
     map (\<lambda>i. mk_task 1 i BLOCKED LOW) [1, 2, 3, 4] @
     map (\<lambda>i. mk_task 1 i TODO LOW) [5, 6, 7, 8, 9, 10]"
  by (simp_all add: project_tasks_def ten_tasks_db_def mk_task_def)

lemma ten_tasks_spec_counts:
  "length (project_tasks (ten_tasks_db 3) 1) = 10"
  "spec_completed (project_tasks (ten_tasks_db 3) 1) = 0"
  "spec_blocked (project_tasks (ten_tasks_db 3) 1) = 3"
  "spec_overdue now (project_tasks (ten_tasks_db 3) 1) = 0"
  "spec_high_risk (project_tasks (ten_tasks_db 3) 1) = 0"
  "length (project_tasks (ten_tasks_db 4) 1) = 10"
  "spec_completed (project_tasks (ten_tasks_db 4) 1) = 0"
  "spec_blocked (project_tasks (ten_tasks_db 4) 1) = 4"
  "spec_overdue now (project_tasks (ten_tasks_db 4) 1) = 0"
  "spec_high_risk (project_tasks (ten_tasks_db 4) 1) = 0"
  by (simp_all add: ten_tasks_project spec_completed_def spec_blocked_def spec_overdue_def
      spec_high_risk_def mk_task_def)

lemma late_project_tasks: "project_tasks late_project_db 1 = late_tasks"
  by (simp add: project_tasks_def late_project_db_def late_tasks_def mk_task_def mk_due_def)

lemma late_project_counts:
  "length (project_tasks late_project_db 1) = 10"
  "spec_completed (project_tasks late_project_db 1) = 2"
  "spec_blocked (project_tasks late_project_db 1) = 0"
  "spec_overdue 10 (project_tasks late_project_db 1) = 1"
  "spec_high_risk (project_tasks late_project_db 1) = 1"
  by (simp_all add: late_project_tasks late_tasks_def spec_completed_def spec_blocked_def
      spec_overdue_def spec_high_risk_def mk_task_def mk_due_def)

lemma witness_projects_nonempty:
  "project_tasks (ten_tasks_db 3) 1 \<noteq> []" "project_tasks (ten_tasks_db 4) 1 \<noteq> []"
  "project_tasks late_project_db 1 \<noteq> []"
  by (simp_all add: ten_tasks_project late_project_tasks late_tasks_def)

lemma witness_projects_risk:
  "\<forall>t\<in>set (project_tasks (ten_tasks_db 3) 1). ai_risk_level t \<noteq> None"
  "\<forall>t\<in>set (project_tasks (ten_tasks_db 4) 1). ai_risk_level t \<noteq> None"
  "\<forall>t\<in>set (project_tasks late_project_db 1). ai_risk_level t \<noteq> None"
  by (simp_all add: ten_tasks_project late_project_tasks late_tasks_def mk_task_def
      mk_due_def)

lemma rule_values:
  "first_matching_rule 10 0 3 0 0 = (''On Track'', ''Project progressing normally'')"
  "first_matching_rule 10 0 4 0 0 = (''Off Track'', ''4 blocked tasks, 0 overdue tasks'')"
  "first_matching_rule 10 2 0 (Suc 0) (Suc 0) =
     (''At Risk'', ''1 high-risk tasks, 1 overdue tasks'')"
  by (simp_all add: first_matching_rule_def str_nat.simps digit_char_def)

theorem timeline_first_match_witness:
  "10 * spec_blocked (project_tasks (ten_tasks_db 3) 1) =
     3 * length (project_tasks (ten_tasks_db 3) 1) \<and>
   (\<exists>r. get_timeline_status (\<lambda>c n. 0) 10 (ten_tasks_db 3) 1 = Inr r \<and>
      result_status r = ''On Track'' \<and> result_reason r = ''Project progressing normally'') \<and>
   (\<exists>r. get_timeline_status (\<lambda>c n. 0) 10 (ten_tasks_db 4) 1 = Inr r \<and>
      result_status r = ''Off Track'' \<and>
      result_reason r = ''4 blocked tasks, 0 overdue tasks'') \<and>
   spec_overdue 10 (project_tasks late_project_db 1) = 1 \<and>
   spec_high_risk (project_tasks late_project_db 1) = 1 \<and>
   (\<exists>r. get_timeline_status (\<lambda>c n. 0) 10 late_project_db 1 = Inr r \<and>
      result_status r = ''At Risk'' \<and>
      result_reason r = ''1 high-risk tasks, 1 overdue tasks'')"
proof -
  have a: "\<exists>r. get_timeline_status (\<lambda>c n. 0) 10 (ten_tasks_db 3) 1 = Inr r \<and>
      result_status r = ''On Track'' \<and> result_reason r = ''Project progressing normally''"
    using timeline_first_match [OF project_tasks_def witness_projects_nonempty(1)
        witness_projects_risk(1), of "\<lambda>c n. 0" 10]
    by (auto simp: ten_tasks_spec_counts rule_values)
  have b: "\<exists>r. get_timeline_status (\<lambda>c n. 0) 10 (ten_tasks_db 4) 1 = Inr r \<and>
      result_status r = ''Off Track'' \<and>
      result_reason r = ''4 blocked tasks, 0 overdue tasks''"
    using timeline_first_match [OF project_tasks_def witness_projects_nonempty(2)
        witness_projects_risk(2), of "\<lambda>c n. 0" 10]
    by (auto simp: ten_tasks_spec_counts rule_values)
  have c: "\<exists>r. get_timeline_status (\<lambda>c n. 0) 10 late_project_db 1 = Inr r \<and>
      result_status r = ''At Risk'' \<and>
      result_reason r = ''1 high-risk tasks, 1 overdue tasks''"
    using timeline_first_match [OF project_tasks_def witness_projects_nonempty(3)
        witness_projects_risk(3), of "\<lambda>c n. 0" 10]
    by (auto simp: late_project_counts rule_values)
  show ?thesis using a b c by (simp add: ten_tasks_spec_counts late_project_counts)
qed

text \<open>The example of the specification: ten tasks, four blocked, none overdue.\<close>

lemma four_blocked_off_track:
  "\<exists>r. get_timeline_status round_pct now (ten_tasks_db 4) 1 = Inr r \<and>
     result_status r = ''Off Track'' \<and>
     result_reason r = ''4 blocked tasks, 0 overdue tasks''"
  by (simp add: get_timeline_status_def Let_def project_tasks_def ten_tasks_db_def mk_task_def
      completed_count_def blocked_count_def overdue_count_def high_risk_count_def
      is_overdue_def str_nat.simps digit_char_def)

text \<open>
  Claim C9. For a project without tasks the result is the status \<open>Needs More Info\<close>,
  the fixed reason and no metrics.
\<close>

theorem empty_project_needs_info:
  assumes "\<forall>t\<in>set (db_tasks d). project_id t \<noteq> pid"
  shows "get_timeline_status round_pct now d pid =
     Inr \<lparr>result_status = ''Needs More Info'',
          result_reason = ''No tasks found in project'',
          result_metrics = None\<rparr>"
proof -
  have "project_tasks d pid = []"
    using assms by (simp add: project_tasks_def filter_empty_conv)
  then show ?thesis by (simp add: get_timeline_status_def)
qed

theorem empty_project_needs_info_witness:
  "filter (\<lambda>t. project_id t = 3) (db_tasks (ten_tasks_db 3)) = [] \<and>
   get_timeline_status (\<lambda>c n. 0) 0 (ten_tasks_db 3) 3 =
     Inr \<lparr>result_status = ''Needs More Info'',
          result_reason = ''No tasks found in project'',
          result_metrics = None\<rparr>"
proof -
  have h: "\<forall>t\<in>set (db_tasks (ten_tasks_db 3)). project_id t \<noteq> 3"
    by (simp add: ten_tasks_db_def mk_task_def)
  have "filter (\<lambda>t. project_id t = 3) (db_tasks (ten_tasks_db 3)) = []"
    by (simp add: ten_tasks_db_def mk_task_def)
  then show ?thesis using empty_project_needs_info [OF h] by simp
qed

section \<open>Properties of the daily report\<close>

lemma dumps_items_error: "dumps_items task ks = Inl e \<Longrightarrow> e = TypeError"
proof (induction ks arbitrary: e)
  case Nil
  then show ?case by simp
next
  case (Cons k ks)
  then show ?case
    by (cases "task k"; cases "the (task k)") (auto split: sum.splits)
qed

lemma dumps_items_date:
  "k \<in> set ks \<Longrightarrow> task k = Some (PDate dt) \<Longrightarrow> dumps_items task ks = Inl TypeError"
proof (induction ks)
  case Nil
  then show ?case by simp
next
  case (Cons a ks)
  show ?case
  proof (cases "a = k")
    case True
    with Cons.prems show ?thesis by simp
  next
    case False
    with Cons have ih: "dumps_items task ks = Inl TypeError" by simp
    show ?thesis
    proof (cases "task a")
      case None
      then show ?thesis by (simp add: ih)
    next
      case (Some v)
      then show ?thesis by (cases v) (simp_all add: ih)
    qed
  qed
qed

lemma dumps_task_list_date:
  assumes "xs \<noteq> []" and "\<forall>x\<in>set xs. \<exists>dt. x ''current_date'' = Some (PDate dt)"
  shows "dumps_task_list xs = Inl TypeError"
proof -
  from assms obtain x rest dt where xs: "xs = x # rest"
    and x: "x ''current_date'' = Some (PDate dt)"
    by (cases xs) auto
  have k: "''current_date'' \<in> set report_dict_keys" by (simp add: report_dict_keys_def)
  have "dumps_items x report_dict_keys = Inl TypeError"
    using k x by (rule dumps_items_date [of "''current_date''" report_dict_keys x dt])
  then show ?thesis by (simp add: xs)
qed

lemma report_task_dict_view: "dated_view (report_task_dict now t)"
  by (simp add: dated_view_def report_task_dict_def dget_def split: option.splits)

lemma score_tasks_current_date:
  "score_tasks ts = Inr scored \<Longrightarrow> \<forall>t\<in>set ts. t ''current_date'' = Some v \<Longrightarrow>
   \<forall>x\<in>set scored. x ''current_date'' = Some v"
proof (induction ts arbitrary: scored)
  case Nil
  then show ?case by simp
next
  case (Cons t ts)
  then show ?case by (auto split: sum.splits)
qed

lemma score_tasks_length: "score_tasks ts = Inr scored \<Longrightarrow> length scored = length ts"
  by (induction ts arbitrary: scored) (auto split: sum.splits)

lemma build_content_fails:
  assumes "ts \<noteq> []"
  shows "build_content reply now ts = Inl TypeError"
proof -
  let ?dicts = "map (report_task_dict now) ts"
  have "\<forall>t\<in>set ?dicts. dated_view t" by (simp add: report_task_dict_view)
  from score_tasks_total [OF this] obtain scored where sc: "score_tasks ?dicts = Inr scored"
    by blast
  let ?ranked = "sorted_reverse priority_key scored"
  have rk: "rank_tasks_by_priority ?dicts = Inr ?ranked"
    by (simp add: rank_tasks_by_priority_def sc)
  have "\<forall>t\<in>set ?dicts. t ''current_date'' = Some (PDate now)"
    by (simp add: report_task_dict_def)
  from score_tasks_current_date [OF sc this]
  have cd: "\<forall>x\<in>set ?ranked. x ''current_date'' = Some (PDate now)"
    by (simp add: sorted_reverse_def)
  have "length ?ranked = length ts"
    using score_tasks_length [OF sc] by (simp add: sorted_reverse_def)
  with assms have ne: "take 10 ?ranked \<noteq> []" by auto
  have "\<forall>x\<in>set (take 10 ?ranked). \<exists>dt. x ''current_date'' = Some (PDate dt)"
    using cd by (auto dest: in_set_takeD)
  from dumps_task_list_date [OF ne this] show ?thesis
    by (simp add: build_content_def rk)
qed

lemma report_fails_with_tasks:
  assumes "find (\<lambda>p. proj_id p = pid) (db_projects d) = Some project"
    and "project_tasks d pid \<noteq> []"
  shows "generate_daily_report reply today now d pid = Inl TypeError"
  by (simp add: generate_daily_report_def assms(1) build_content_fails [OF assms(2)])


lemma fallback_fields:
  "summary_get (generate_daily_summary Provider_failure) ''summary_text'' (JString []) =
     JString ''Unable to generate summary at this time.''"
  "summary_get (generate_daily_summary Provider_failure) ''risks'' (JArray []) = JArray []"
  by (simp_all add: generate_daily_summary_def summary_get_def)

text \<open>
  Claim C5 says that report generation succeeds whenever the narrative provider fails.
  The fallback of \<open>generate_daily_summary\<close> does absorb the failure, but for project 2 of
  \<open>ten_tasks_db 3\<close>, which has one task, the call raises \<open>TypeError\<close>: the task
  dictionary holds the datetime \<open>current_date\<close>, which \<open>json.dumps\<close> cannot encode.
\<close>

theorem provider_failure_report_raises:
  "project_tasks (ten_tasks_db 3) 2 = [mk_task 2 11 DONE LOW] \<and>
   generate_daily_summary Provider_failure ''summary_text'' =
     Some (JString ''Unable to generate summary at this time.'') \<and>
   generate_daily_report Provider_failure 0 0 (ten_tasks_db 3) 2 = Inl TypeError"
proof -
  have ts: "project_tasks (ten_tasks_db 3) 2 = [mk_task 2 11 DONE LOW]"
    by (simp add: project_tasks_def ten_tasks_db_def mk_task_def)
  have p: "find (\<lambda>p. proj_id p = 2) (db_projects (ten_tasks_db 3)) =
      Some \<lparr>proj_id = 2, name = ''beta''\<rparr>"
    by (simp add: ten_tasks_db_def)
  have "generate_daily_report Provider_failure 0 0 (ten_tasks_db 3) 2 = Inl TypeError"
    by (rule report_fails_with_tasks [OF p]) (simp add: ts)
  then show ?thesis by (simp add: ts generate_daily_summary_def)
qed







lemma overwrite_fixed [simp]:
  "report_id (overwrite ex c) = report_id ex"
  "report_key (overwrite ex c) = report_key ex"
  "summary_text (overwrite ex c) = new_summary_text c"
  "priority_list_json (overwrite ex c) = new_priority_list_json c"
  "risks_json (overwrite ex c) = new_risks_json c"
  "blocked_tasks_json (overwrite ex c) = new_blocked_tasks_json c"
  by (simp_all add: overwrite_def report_key_def)







lemma fresh_report_fixed [simp]:
  "report_id (fresh_report d pid today c) = next_report_id (db_daily_reports d)"
  "report_key (fresh_report d pid today c) = (pid, today)"
  "summary_text (fresh_report d pid today c) = new_summary_text c"
  "priority_list_json (fresh_report d pid today c) = new_priority_list_json c"
  "risks_json (fresh_report d pid today c) = new_risks_json c"
  "blocked_tasks_json (fresh_report d pid today c) = new_blocked_tasks_json c"
  by (simp_all add: fresh_report_def report_key_def)















section \<open>Properties of deadline parsing\<close>






















end
